theory Spec2Isabelle
  imports Complex_Main "HOL-Library.Char_ord" "HOL-Library.List_Lexorder" "HOL-Library.Multiset"
begin

section \<open>Python values, exceptions and strings\<close>

text \<open>
  A shallow embedding of \<open>scripts/af3_runner.py\<close>.  Python exceptions are values:
  an exception carries its class name and the text that \<open>str(e)\<close> gives.  A function
  that may raise returns \<open>exn + 'a\<close>, with \<open>Inl\<close> the raised exception.
\<close>

datatype exn = Exn string string

fun str_exn :: "exn \<Rightarrow> string" where
  "str_exn (Exn cls msg) = msg"

definition ZeroDivisionError :: exn where
  "ZeroDivisionError = Exn ''ZeroDivisionError'' ''division by zero''"

definition KeyError :: "string \<Rightarrow> exn" where
  "KeyError k = Exn ''KeyError'' ([CHR 0x27] @ k @ [CHR 0x27])"

definition FileNotFoundError :: "string \<Rightarrow> exn" where
  "FileNotFoundError p =
     Exn ''FileNotFoundError'' (''[Errno 2] No such file or directory: '' @ [CHR 0x27] @ p @ [CHR 0x27])"

definition OSError :: "string \<Rightarrow> exn" where
  "OSError p = Exn ''OSError'' p"

definition ValueError :: "string \<Rightarrow> exn" where
  "ValueError m = Exn ''ValueError'' m"

text \<open>The values stored in the result dictionaries: strings and floats (durations).
  A float is modelled by the rational it stands for; rounding is not modelled.\<close>

datatype pyval = PyStr string | PyFloat rat

type_synonym pydict = "string \<rightharpoonup> pyval"

text \<open>\<open>str(n)\<close> for a non-negative integer.\<close>

definition digit_char :: "nat \<Rightarrow> char" where
  "digit_char d = char_of (48 + d)"

fun str_nat :: "nat \<Rightarrow> string" where
  "str_nat n = (if n < 10 then [digit_char n] else str_nat (n div 10) @ [digit_char (n mod 10)])"

declare str_nat.simps [simp del]

text \<open>\<open>str.strip()\<close>, \<open>str.split(sep)\<close> with a one-character separator, and
  \<open>str.endswith\<close>.  The white space of \<open>strip\<close> is the one of \<open>str.isspace\<close>
  among the first 256 code points.\<close>

definition py_isspace :: "char \<Rightarrow> bool" where
  "py_isspace c = ((of_char c :: nat) \<in> {9, 10, 11, 12, 13, 28, 29, 30, 31, 32, 133, 160})"

definition strip :: "string \<Rightarrow> string" where
  "strip s = rev (dropWhile py_isspace (rev (dropWhile py_isspace s)))"

primrec split_sep :: "char \<Rightarrow> string \<Rightarrow> string list" where
  "split_sep c [] = [[]]"
| "split_sep c (x # xs) =
     (if x = c then [] # split_sep c xs
      else (case split_sep c xs of
              [] \<Rightarrow> [[x]]
            | y # ys \<Rightarrow> (x # y) # ys))"

definition endswith :: "string \<Rightarrow> string \<Rightarrow> bool" where
  "endswith s suf = (take (length suf) (rev s) = rev suf)"

section \<open>\<open>os.path\<close> on POSIX paths\<close>

definition path_join :: "string \<Rightarrow> string \<Rightarrow> string" where
  "path_join a b =
     (if b \<noteq> [] \<and> hd b = CHR ''/'' then b
      else if a = [] \<or> last a = CHR ''/'' then a @ b
      else a @ ''/'' @ b)"

definition basename :: "string \<Rightarrow> string" where
  "basename p = rev (takeWhile (\<lambda>c. c \<noteq> CHR ''/'') (rev p))"

definition dirname :: "string \<Rightarrow> string" where
  "dirname p =
     (let head = rev (dropWhile (\<lambda>c. c \<noteq> CHR ''/'') (rev p))
      in if head = [] then head
         else if list_all (\<lambda>c. c = CHR ''/'') head then head
         else rev (dropWhile (\<lambda>c. c = CHR ''/'') (rev head)))"

text \<open>\<open>os.path.splitext(p)[0]\<close> for a name without a separator (it is applied to a
  \<open>basename\<close>): the name is cut at its last dot, unless only dots come before it.\<close>

definition splitext_root :: "string \<Rightarrow> string" where
  "splitext_root p =
     (case dropWhile (\<lambda>c. c \<noteq> CHR ''.'') (rev p) of
        [] \<Rightarrow> p
      | d # front \<Rightarrow> if list_all (\<lambda>c. c = CHR ''.'') front then p else rev front)"

definition base_name_of :: "string \<Rightarrow> string" where
  "base_name_of json_file = splitext_root (basename json_file)"

section \<open>The host the program runs on\<close>

text \<open>
  What the program reads from its surroundings is a record of the host:
  the outcome of the \<open>nvidia-smi\<close> query, the CPU count, the file system queries,
  the validity of each descriptor file (\<open>validate_json_file\<close> catches every exception
  and returns a boolean, so it is a predicate of the path), whether \<open>os.makedirs\<close>
  succeeds on a path and the exception it raises when it does not, the behaviour of the external
  process for a command and an environment, and the order in which futures complete.
\<close>

datatype smi_outcome =
    SmiNotFound
  | SmiRaises exn
  | SmiCompleted int string

datatype proc_behaviour =
    LaunchFails exn
  | Runs "rat option" int string

record host =
  nvidia_smi :: smi_outcome
  cpu_count :: "nat option"
  path_exists :: "string \<Rightarrow> bool"
  listdir :: "string \<Rightarrow> string list option"
  validate_json_file :: "string \<Rightarrow> bool"
  can_makedirs :: "string \<Rightarrow> bool"
  makedirs_exn :: "string \<Rightarrow> exn"
  proc :: "string list \<Rightarrow> (string \<rightharpoonup> string) \<Rightarrow> proc_behaviour"
  completion :: "nat list"

section \<open>Resource detection\<close>

definition detect_gpu_count :: "host \<Rightarrow> exn + nat" where
  "detect_gpu_count h =
     (case nvidia_smi h of
        SmiNotFound \<Rightarrow> Inr 0
      | SmiRaises e \<Rightarrow> Inl e
      | SmiCompleted returncode out \<Rightarrow>
          if returncode = 0 then Inr (length (split_sep (CHR 0x0A) (strip out)))
          else Inr 0)"

section \<open>Scheduling\<close>

text \<open>The loop over \<open>os.listdir(input_dir)\<close>: the files whose name ends in
  \<open>.json\<close> and that pass validation, in the order of the listing; the others that end in
  \<open>.json\<close> are logged as skipped.\<close>

definition candidates :: "string list \<Rightarrow> string list" where
  "candidates files = filter (\<lambda>f. endswith f ''.json'') files"

definition find_json_files :: "host \<Rightarrow> string \<Rightarrow> string list \<Rightarrow> string list" where
  "find_json_files h input_dir files =
     filter (validate_json_file h) (map (path_join input_dir) (candidates files))"

definition skipped_files :: "host \<Rightarrow> string \<Rightarrow> string list \<Rightarrow> string list" where
  "skipped_files h input_dir files =
     filter (\<lambda>f. \<not> validate_json_file h (path_join input_dir f)) (candidates files)"

text \<open>The task preparation loop, with its counter \<open>gpu_index\<close>.\<close>

fun prepare_tasks :: "nat \<Rightarrow> nat \<Rightarrow> string list \<Rightarrow> (string \<times> nat option) list" where
  "prepare_tasks gpu_count gpu_index [] = []"
| "prepare_tasks gpu_count gpu_index (json_file # rest) =
     (if gpu_count > 0
      then (json_file, Some (gpu_index mod gpu_count)) # prepare_tasks gpu_count (gpu_index + 1) rest
      else (json_file, None) # prepare_tasks gpu_count gpu_index rest)"

text \<open>\<open>os.cpu_count() or 4\<close>: \<open>None\<close> and \<open>0\<close> are both false.\<close>

definition cpu_count_or_4 :: "host \<Rightarrow> nat" where
  "cpu_count_or_4 h = (case cpu_count h of None \<Rightarrow> 4 | Some c \<Rightarrow> if c = 0 then 4 else c)"

definition max_workers :: "host \<Rightarrow> int \<Rightarrow> nat \<Rightarrow> int" where
  "max_workers h max_concurrent gpu_count =
     (if gpu_count > 0 then min max_concurrent (int gpu_count)
      else min max_concurrent (int (cpu_count_or_4 h)))"

section \<open>The state the program changes\<close>

text \<open>
  The process-wide environment \<open>os.environ\<close>, the directories created by
  \<open>os.makedirs\<close>, the calls of \<open>subprocess.run\<close> made so far (command and environment
  handed to the child), and the files written.  A file is the list of its \<open>f.write\<close> calls.
\<close>

datatype report_line =
    HeavyRule | TitleLine | RunTime | OutputDir string
  | LightRule | StatsTitle
  | TotalTasks nat | SuccessCount nat | FailedCount nat | ErrorCount nat
  | SuccessRate rat
  | SuccessTitle | SuccessEntry pyval pyval rat
  | FailedTitle | FailedEntry pyval pyval pyval
  | ErrorsTitle | ErrorEntry pyval pyval
  | Blank

record sys_state =
  environ :: "string \<rightharpoonup> string"
  made_dirs :: "string list"
  launched :: "(string list \<times> (string \<rightharpoonup> string)) list"
  files :: "string \<rightharpoonup> report_line list"

definition makedirs :: "host \<Rightarrow> string \<Rightarrow> sys_state \<Rightarrow> (exn + unit) \<times> sys_state" where
  "makedirs h d s =
     (if can_makedirs h d then (Inr (), s\<lparr>made_dirs := made_dirs s @ [d]\<rparr>)
      else (Inl (makedirs_exn h d), s))"

definition isdir :: "host \<Rightarrow> sys_state \<Rightarrow> string \<Rightarrow> bool" where
  "isdir h s d = (case listdir h d of Some listing \<Rightarrow> True | None \<Rightarrow> d \<in> set (made_dirs s))"

section \<open>Dispatching one job\<close>

text \<open>
  \<open>subprocess.run(cmd, env=env, timeout=t)\<close>: the child cannot be started, or it is
  waited for; a child that needs longer than \<open>t\<close> seconds (or never exits) is killed and
  \<open>TimeoutExpired\<close> is raised.  The time between the two readings of \<open>time.time()\<close> is
  taken to be the running time of the child.
\<close>

datatype run_outcome =
    RunRaised exn
  | RunTimeoutExpired
  | RunCompleted int string rat

definition subprocess_run :: "host \<Rightarrow> string list \<Rightarrow> (string \<rightharpoonup> string) \<Rightarrow> rat \<Rightarrow> run_outcome" where
  "subprocess_run h cmd env timeout =
     (case proc h cmd env of
        LaunchFails e \<Rightarrow> RunRaised e
      | Runs None returncode err \<Rightarrow> RunTimeoutExpired
      | Runs (Some t) returncode err \<Rightarrow>
          if t \<le> timeout then RunCompleted returncode err t else RunTimeoutExpired)"

definition child_env :: "(string \<rightharpoonup> string) \<Rightarrow> nat option \<Rightarrow> (string \<rightharpoonup> string)" where
  "child_env os_environ gpu_id =
     (case gpu_id of
        Some g \<Rightarrow> os_environ(''CUDA_VISIBLE_DEVICES'' \<mapsto> str_nat g)
      | None \<Rightarrow> os_environ(''CUDA_VISIBLE_DEVICES'' := None))"

definition gpu_info_of :: "nat option \<Rightarrow> string" where
  "gpu_info_of gpu_id = (case gpu_id of Some g \<Rightarrow> ''GPU '' @ str_nat g | None \<Rightarrow> ''CPU'')"

definition build_cmd :: "string \<Rightarrow> string \<Rightarrow> string \<Rightarrow> string \<Rightarrow> string list" where
  "build_cmd af3_script json_file job_output_dir max_template_date =
     [''python'', af3_script,
      ''--input_dir'', dirname json_file,
      ''--output_dir'', job_output_dir,
      ''--max_template_date'', max_template_date]"

definition run_single_prediction ::
  "host \<Rightarrow> string \<Rightarrow> string \<Rightarrow> string \<Rightarrow> string \<Rightarrow> nat option \<Rightarrow> sys_state
     \<Rightarrow> (exn + pydict) \<times> sys_state" where
  "run_single_prediction h json_file output_dir af3_script max_template_date gpu_id s =
     (let base_name = base_name_of json_file;
          job_output_dir = path_join output_dir base_name
      in case makedirs h job_output_dir s of
           (Inl e, s1) \<Rightarrow> (Inl e, s1)
         | (Inr u, s1) \<Rightarrow>
             (let env = child_env (environ s1) gpu_id;
                  gpu_info = gpu_info_of gpu_id;
                  cmd = build_cmd af3_script json_file job_output_dir max_template_date;
                  s2 = s1\<lparr>launched := launched s1 @ [(cmd, env)]\<rparr>
              in case subprocess_run h cmd env 3600 of
                   RunCompleted returncode err duration \<Rightarrow>
                     if returncode = 0
                     then (Inr (Map.empty(''status'' \<mapsto> PyStr ''success'',
                                    ''sample'' \<mapsto> PyStr base_name,
                                    ''output_dir'' \<mapsto> PyStr job_output_dir,
                                    ''duration'' \<mapsto> PyFloat duration,
                                    ''gpu_info'' \<mapsto> PyStr gpu_info)), s2)
                     else (Inr (Map.empty(''status'' \<mapsto> PyStr ''failed'',
                                    ''sample'' \<mapsto> PyStr base_name,
                                    ''error'' \<mapsto> PyStr err,
                                    ''duration'' \<mapsto> PyFloat duration,
                                    ''gpu_info'' \<mapsto> PyStr gpu_info)), s2)
                 | RunTimeoutExpired \<Rightarrow>
                     (Inr (Map.empty(''status'' \<mapsto> PyStr ''timeout'',
                               ''sample'' \<mapsto> PyStr base_name,
                               ''error'' \<mapsto> PyStr ''Prediction timeout'',
                               ''gpu_info'' \<mapsto> PyStr gpu_info)), s2)
                 | RunRaised e \<Rightarrow>
                     (Inr (Map.empty(''status'' \<mapsto> PyStr ''error'',
                               ''sample'' \<mapsto> PyStr base_name,
                               ''error'' \<mapsto> PyStr (str_exn e),
                               ''gpu_info'' \<mapsto> PyStr gpu_info)), s2)))"

section \<open>Running the batch and collecting the outcomes\<close>

record results =
  success :: "pydict list"
  failed :: "pydict list"
  errors :: "pydict list"

definition empty_results :: results where
  "empty_results = \<lparr>success = [], failed = [], errors = []\<rparr>"

type_synonym future = "(string \<times> nat option) \<times> (exn + pydict)"

text \<open>The pool starts the submitted tasks in the order of submission; each future holds
  what \<open>run_single_prediction\<close> returned or raised.\<close>

fun run_tasks ::
  "host \<Rightarrow> string \<Rightarrow> string \<Rightarrow> string \<Rightarrow> (string \<times> nat option) list \<Rightarrow> sys_state
     \<Rightarrow> future list \<times> sys_state" where
  "run_tasks h output_dir af3_script max_template_date [] s = ([], s)"
| "run_tasks h output_dir af3_script max_template_date ((json_file, gpu_id) # rest) s =
     (case run_single_prediction h json_file output_dir af3_script max_template_date gpu_id s of
        (r, s1) \<Rightarrow>
          (case run_tasks h output_dir af3_script max_template_date rest s1 of
             (fs, s2) \<Rightarrow> (((json_file, gpu_id), r) # fs, s2)))"

text \<open>\<open>as_completed\<close> yields the futures in completion order, which the host decides: at
  each step the next number of \<open>completion\<close> picks one of the futures not yet yielded.\<close>

function as_completed :: "nat list \<Rightarrow> 'a list \<Rightarrow> 'a list" where
  "as_completed picks [] = []"
| "as_completed [] (f # fs) = f # as_completed [] fs"
| "as_completed (k # ks) (f # fs) =
     (let i = k mod length (f # fs)
      in (f # fs) ! i # as_completed ks (take i (f # fs) @ drop (Suc i) (f # fs)))"
  by pat_completeness auto
termination
  by (relation "measure (\<lambda>(picks, fs). length fs)") auto

definition collect_one :: "results \<Rightarrow> future \<Rightarrow> results" where
  "collect_one res fut =
     (case fut of ((json_file, gpu_id), outcome) \<Rightarrow>
        (case outcome of
           Inl e \<Rightarrow>
             res\<lparr>errors := errors res @
                   [Map.empty(''sample'' \<mapsto> PyStr (base_name_of json_file),
                              ''error'' \<mapsto> PyStr (str_exn e))]\<rparr>
         | Inr result \<Rightarrow>
             (case result ''status'' of
                None \<Rightarrow>
                  res\<lparr>errors := errors res @
                        [Map.empty(''sample'' \<mapsto> PyStr (base_name_of json_file),
                                   ''error'' \<mapsto> PyStr (str_exn (KeyError ''status'')))]\<rparr>
              | Some st \<Rightarrow>
                  if st = PyStr ''success''
                  then res\<lparr>success := success res @ [result]\<rparr>
                  else res\<lparr>failed := failed res @ [result]\<rparr>)))"

definition collect :: "future list \<Rightarrow> results" where
  "collect futures = foldl collect_one empty_results futures"

definition run_batch_predictions ::
  "host \<Rightarrow> string \<Rightarrow> string \<Rightarrow> string \<Rightarrow> int \<Rightarrow> string \<Rightarrow> sys_state
     \<Rightarrow> (exn + results) \<times> sys_state" where
  "run_batch_predictions h input_dir output_dir af3_script max_concurrent max_template_date s =
     (case listdir h input_dir of
        None \<Rightarrow> (Inr empty_results, s)
      | Some listing \<Rightarrow>
          (let json_files = find_json_files h input_dir listing
           in if json_files = [] then (Inr empty_results, s)
              else (case detect_gpu_count h of
                      Inl e \<Rightarrow> (Inl e, s)
                    | Inr gpu_count \<Rightarrow>
                        (case makedirs h output_dir s of
                           (Inl e, s1) \<Rightarrow> (Inl e, s1)
                         | (Inr u, s1) \<Rightarrow>
                             (let tasks = prepare_tasks gpu_count 0 json_files;
                                  workers = max_workers h max_concurrent gpu_count
                              in if workers \<le> 0
                                 then (Inl (ValueError ''max_workers must be greater than 0''), s1)
                                 else (case run_tasks h output_dir af3_script max_template_date tasks s1 of
                                         (futures, s2) \<Rightarrow>
                                           (Inr (collect (as_completed (completion h) futures)), s2)))))))"

section \<open>The summary report\<close>

text \<open>Each f-string is evaluated before its \<open>f.write\<close>: a line whose evaluation raises
  writes nothing, and the lines before it stay in the file, which the \<open>with\<close> block
  closes.  \<open>:.1f\<close> is applied to a float; the text of a line is kept as its data.\<close>

definition success_entry :: "pydict \<Rightarrow> exn + report_line" where
  "success_entry r =
     (case r ''sample'' of
        None \<Rightarrow> Inl (KeyError ''sample'')
      | Some sample \<Rightarrow>
          (case r ''gpu_info'' of
             None \<Rightarrow> Inl (KeyError ''gpu_info'')
           | Some gpu_info \<Rightarrow>
               (case r ''duration'' of
                  None \<Rightarrow> Inl (KeyError ''duration'')
                | Some (PyStr t) \<Rightarrow> Inl (ValueError ''Unknown format code'')
                | Some (PyFloat d) \<Rightarrow> Inr (SuccessEntry sample gpu_info d))))"

definition failed_entry :: "pydict \<Rightarrow> exn + report_line" where
  "failed_entry r =
     (case r ''sample'' of
        None \<Rightarrow> Inl (KeyError ''sample'')
      | Some sample \<Rightarrow>
          (case r ''gpu_info'' of
             None \<Rightarrow> Inl (KeyError ''gpu_info'')
           | Some gpu_info \<Rightarrow>
               Inr (FailedEntry sample gpu_info
                      (case r ''error'' of None \<Rightarrow> PyStr ''Unknown error'' | Some e \<Rightarrow> e))))"

definition error_entry :: "pydict \<Rightarrow> exn + report_line" where
  "error_entry r =
     (case r ''sample'' of
        None \<Rightarrow> Inl (KeyError ''sample'')
      | Some sample \<Rightarrow>
          (case r ''error'' of
             None \<Rightarrow> Inl (KeyError ''error'')
           | Some e \<Rightarrow> Inr (ErrorEntry sample e)))"

definition success_rate :: "nat \<Rightarrow> nat \<Rightarrow> exn + rat" where
  "success_rate success_count total_tasks =
     (if total_tasks = 0 then Inl ZeroDivisionError
      else Inr (of_nat success_count / of_nat total_tasks * 100))"

definition report_writes :: "results \<Rightarrow> string \<Rightarrow> (exn + report_line) list" where
  "report_writes res output_dir =
     (let total_tasks = length (success res) + length (failed res) + length (errors res);
          success_count = length (success res);
          failed_count = length (failed res);
          error_count = length (errors res)
      in [Inr HeavyRule, Inr TitleLine, Inr HeavyRule, Inr RunTime, Inr (OutputDir output_dir),
          Inr LightRule, Inr StatsTitle, Inr LightRule,
          Inr (TotalTasks total_tasks), Inr (SuccessCount success_count),
          Inr (FailedCount failed_count), Inr (ErrorCount error_count),
          map_sum id SuccessRate (success_rate success_count total_tasks)]
         @ (if success res \<noteq> []
            then [Inr LightRule, Inr SuccessTitle, Inr LightRule]
                 @ map success_entry (success res) @ [Inr Blank]
            else [])
         @ (if failed res \<noteq> []
            then [Inr LightRule, Inr FailedTitle, Inr LightRule]
                 @ map failed_entry (failed res) @ [Inr Blank]
            else [])
         @ (if errors res \<noteq> []
            then [Inr LightRule, Inr ErrorsTitle, Inr LightRule]
                 @ map error_entry (errors res)
            else []))"

fun write_all :: "(exn + report_line) list \<Rightarrow> report_line list \<Rightarrow> (exn + unit) \<times> report_line list" where
  "write_all [] written = (Inr (), written)"
| "write_all (Inl e # rest) written = (Inl e, written)"
| "write_all (Inr l # rest) written = write_all rest (written @ [l])"

definition generate_summary_report ::
  "host \<Rightarrow> results \<Rightarrow> string \<Rightarrow> sys_state \<Rightarrow> (exn + unit) \<times> sys_state" where
  "generate_summary_report h res output_dir s =
     (let report_file = path_join output_dir ''run_summary.txt''
      in if \<not> isdir h s output_dir then (Inl (FileNotFoundError report_file), s)
         else (case write_all (report_writes res output_dir) [] of
                 (r, written) \<Rightarrow> (r, s\<lparr>files := (files s)(report_file \<mapsto> written)\<rparr>)))"

section \<open>The command line and \<open>main\<close>\<close>

text \<open>
  The parser declared by the \<open>add_argument\<close> calls.  An option is given by its full name,
  followed by its value, which is taken as it comes; \<open>-h\<close> and \<open>--help\<close> exit with
  status 0; anything else is an error, on which \<open>argparse\<close> exits with status 2.
  \<open>--max_concurrent\<close> is converted by \<open>int\<close> (an optional sign and decimal digits).
  Abbreviated option names and the form \<open>--option=value\<close> are left out.
\<close>

record namespace =
  arg_input_dir :: "string option"
  arg_output_dir :: "string option"
  arg_af3_script :: string
  arg_max_concurrent :: int
  arg_max_template_date :: string
  arg_verbose :: bool

definition default_namespace :: namespace where
  "default_namespace =
     \<lparr>arg_input_dir = None, arg_output_dir = None,
      arg_af3_script = ''/data/AlphaFold/alphafold3/run_alphafold.py'',
      arg_max_concurrent = 4,
      arg_max_template_date = ''3000-12-01'',
      arg_verbose = False\<rparr>"

definition is_digit :: "char \<Rightarrow> bool" where
  "is_digit c = (48 \<le> (of_char c :: nat) \<and> (of_char c :: nat) \<le> 57)"

definition digits_val :: "string \<Rightarrow> nat" where
  "digits_val ds = foldl (\<lambda>a c. 10 * a + (of_char c - 48)) 0 ds"

definition py_int :: "string \<Rightarrow> int option" where
  "py_int t =
     (case t of
        [] \<Rightarrow> None
      | c # cs \<Rightarrow>
          if c = CHR ''-'' then (if cs \<noteq> [] \<and> list_all is_digit cs then Some (- int (digits_val cs)) else None)
          else if c = CHR ''+'' then (if cs \<noteq> [] \<and> list_all is_digit cs then Some (int (digits_val cs)) else None)
          else if list_all is_digit t then Some (int (digits_val t)) else None)"

fun parse_loop :: "string list \<Rightarrow> namespace \<Rightarrow> int + namespace" where
  "parse_loop [] ns = Inr ns"
| "parse_loop [a] ns =
     (if a = ''-h'' \<or> a = ''--help'' then Inl 0
      else if a = ''--verbose'' \<or> a = ''-v'' then Inr (ns\<lparr>arg_verbose := True\<rparr>)
      else Inl 2)"
| "parse_loop (a # v # rest) ns =
     (if a = ''-h'' \<or> a = ''--help'' then Inl 0
      else if a = ''--verbose'' \<or> a = ''-v'' then parse_loop (v # rest) (ns\<lparr>arg_verbose := True\<rparr>)
      else if a = ''--input_dir'' then parse_loop rest (ns\<lparr>arg_input_dir := Some v\<rparr>)
      else if a = ''--output_dir'' then parse_loop rest (ns\<lparr>arg_output_dir := Some v\<rparr>)
      else if a = ''--af3_script'' then parse_loop rest (ns\<lparr>arg_af3_script := v\<rparr>)
      else if a = ''--max_concurrent''
      then (case py_int v of
              None \<Rightarrow> Inl 2
            | Some n \<Rightarrow> parse_loop rest (ns\<lparr>arg_max_concurrent := n\<rparr>))
      else if a = ''--max_template_date'' then parse_loop rest (ns\<lparr>arg_max_template_date := v\<rparr>)
      else Inl 2)"

definition parse_args :: "string list \<Rightarrow> int + namespace" where
  "parse_args argv =
     (case parse_loop argv default_namespace of
        Inl code \<Rightarrow> Inl code
      | Inr ns \<Rightarrow> if arg_input_dir ns = None \<or> arg_output_dir ns = None then Inl 2 else Inr ns)"

datatype ending = SysExit int | Uncaught exn | Returned

fun exit_code :: "ending \<Rightarrow> int" where
  "exit_code (SysExit n) = n"
| "exit_code (Uncaught e) = 1"
| "exit_code Returned = 0"

definition main :: "host \<Rightarrow> string list \<Rightarrow> sys_state \<Rightarrow> ending \<times> sys_state" where
  "main h argv s =
     (case parse_args argv of
        Inl code \<Rightarrow> (SysExit code, s)
      | Inr args \<Rightarrow>
          (case (arg_input_dir args, arg_output_dir args) of
             (Some input_dir, Some output_dir) \<Rightarrow>
               if \<not> path_exists h (arg_af3_script args) then (SysExit 1, s)
               else (case run_batch_predictions h input_dir output_dir (arg_af3_script args)
                            (arg_max_concurrent args) (arg_max_template_date args) s of
                       (Inl e, s1) \<Rightarrow> (Uncaught e, s1)
                     | (Inr res, s1) \<Rightarrow>
                         (case generate_summary_report h res output_dir s1 of
                            (Inl e, s2) \<Rightarrow> (Uncaught e, s2)
                          | (Inr u, s2) \<Rightarrow>
                              (let total = length (success res) + length (failed res) + length (errors res)
                               in if total = 0 then (Uncaught ZeroDivisionError, s2)
                                  else (Returned, s2))))
           | _ \<Rightarrow> (SysExit 2, s)))"

section \<open>Views of the outcome buckets\<close>

definition status_of :: "pydict \<Rightarrow> pyval option" where
  "status_of r = r ''status''"

definition sample_of :: "pydict \<Rightarrow> pyval option" where
  "sample_of r = r ''sample''"

definition count_status :: "string \<Rightarrow> pydict list \<Rightarrow> nat" where
  "count_status st rs = length (filter (\<lambda>r. status_of r = Some (PyStr st)) rs)"

definition failed_statuses :: "results \<Rightarrow> pyval option list" where
  "failed_statuses res = map status_of (failed res)"

text \<open>One task from dispatch to its bucket: the future of \<open>run_single_prediction\<close> is
  resolved and filed by the collector.\<close>

definition dispatch_and_collect ::
  "host \<Rightarrow> string \<Rightarrow> string \<Rightarrow> string \<Rightarrow> string \<Rightarrow> nat option \<Rightarrow> sys_state \<Rightarrow> results \<Rightarrow> results" where
  "dispatch_and_collect h json_file output_dir af3_script max_template_date gpu_id s res =
     collect_one res
       ((json_file, gpu_id),
        fst (run_single_prediction h json_file output_dir af3_script max_template_date gpu_id s))"

section \<open>A concrete host\<close>

text \<open>
  Two accelerators, eight cores, an input directory \<open>in\<close> listed as \<open>b.json\<close>,
  \<open>a.json\<close>, \<open>notes.txt\<close>, \<open>bad.json\<close>, \<open>c.json\<close> of which \<open>bad.json\<close> fails
  validation, and an existing output directory \<open>out\<close>.  The job \<open>a\<close> exits with 0
  after 10 seconds, the job \<open>b\<close> never exits, any other job exits with 2 after 5
  seconds.
\<close>

definition example_proc :: "string list \<Rightarrow> (string \<rightharpoonup> string) \<Rightarrow> proc_behaviour" where
  "example_proc cmd env =
     (if cmd ! 5 = ''out/a'' then Runs (Some 10) 0 []
      else if cmd ! 5 = ''out/b'' then Runs None 0 []
      else Runs (Some 5) 2 ''boom'')"

definition example_host :: host where
  "example_host =
     \<lparr>nvidia_smi = SmiCompleted 0 (''A100'' @ [CHR 0x0A] @ ''A100'' @ [CHR 0x0A]),
      cpu_count = Some 8,
      path_exists = (\<lambda>p. True),
      listdir = (\<lambda>d. if d = ''in'' then Some [''b.json'', ''a.json'', ''notes.txt'', ''bad.json'', ''c.json'']
                     else if d = ''out'' then Some []
                     else None),
      validate_json_file = (\<lambda>p. p = ''in/a.json'' \<or> p = ''in/b.json'' \<or> p = ''in/c.json''),
      can_makedirs = (\<lambda>d. True),
      makedirs_exn = OSError,
      proc = example_proc,
      completion = [1, 0]\<rparr>"

definition initial_state :: sys_state where
  "initial_state =
     \<lparr>environ = Map.empty(''PATH'' \<mapsto> ''/usr/bin'', ''CUDA_VISIBLE_DEVICES'' \<mapsto> ''7''),
      made_dirs = [],
      launched = [],
      files = Map.empty\<rparr>"

section \<open>Notions used in the proofs\<close>

text \<open>The number of records in the three buckets, the records themselves, the sample
  name a future stands for, and what \<open>run_single_prediction\<close> guarantees of a record
  it returns.\<close>

definition total_of :: "results \<Rightarrow> nat" where
  "total_of res = length (success res) + length (failed res) + length (errors res)"

definition all_records :: "results \<Rightarrow> pydict list" where
  "all_records res = success res @ failed res @ errors res"

definition task_sample :: "future \<Rightarrow> pyval option" where
  "task_sample f = Some (PyStr (base_name_of (fst (fst f))))"

definition wf_record :: "string \<Rightarrow> pydict \<Rightarrow> bool" where
  "wf_record base r =
     (r ''sample'' = Some (PyStr base) \<and> (\<exists>g. r ''gpu_info'' = Some (PyStr g)) \<and>
      ((status_of r = Some (PyStr ''success'') \<and> (\<exists>d. r ''duration'' = Some (PyFloat d)))
       \<or> status_of r = Some (PyStr ''failed'')
       \<or> status_of r = Some (PyStr ''timeout'')
       \<or> status_of r = Some (PyStr ''error'')))"

definition wf_future :: "future \<Rightarrow> bool" where
  "wf_future f = (case snd f of Inl e \<Rightarrow> True | Inr r \<Rightarrow> wf_record (base_name_of (fst (fst f))) r)"

text \<open>The statuses a record of the failed bucket can have, and the buckets whose
  records the report can print.\<close>

definition failed_status :: "pydict \<Rightarrow> bool" where
  "failed_status r =
     (status_of r = Some (PyStr ''failed'') \<or> status_of r = Some (PyStr ''timeout'')
      \<or> status_of r = Some (PyStr ''error''))"

definition good_results :: "results \<Rightarrow> bool" where
  "good_results res =
     (list_all (\<lambda>r. \<exists>l. success_entry r = Inr l) (success res) \<and>
      list_all (\<lambda>r. \<exists>l. failed_entry r = Inr l) (failed res) \<and>
      list_all failed_status (failed res) \<and>
      list_all (\<lambda>r. \<exists>l. error_entry r = Inr l) (errors res))"

section \<open>Properties of dispatch and collection\<close>

lemma run_single_prediction_wf:
  "wf_future ((json_file, gpu), fst (run_single_prediction h json_file output_dir af3 date gpu s))"
  by (auto simp: wf_future_def wf_record_def run_single_prediction_def makedirs_def Let_def
        status_of_def gpu_info_of_def split: run_outcome.splits option.splits)

lemma run_single_prediction_environ:
  "environ (snd (run_single_prediction h json_file output_dir af3 date gpu s)) = environ s"
  by (auto simp: run_single_prediction_def makedirs_def Let_def split: run_outcome.splits)

lemma run_single_prediction_files:
  "files (snd (run_single_prediction h json_file output_dir af3 date gpu s)) = files s"
  by (auto simp: run_single_prediction_def makedirs_def Let_def split: run_outcome.splits)

lemma run_single_prediction_launched:
  "launched (snd (run_single_prediction h json_file output_dir af3 date gpu s)) =
     launched s @
     (if can_makedirs h (path_join output_dir (base_name_of json_file))
      then [(build_cmd af3 json_file (path_join output_dir (base_name_of json_file)) date,
             child_env (environ s) gpu)]
      else [])"
  by (auto simp: run_single_prediction_def makedirs_def Let_def split: run_outcome.splits)

lemma run_tasks_tasks:
  "map fst (fst (run_tasks h output_dir af3 date tasks s)) = tasks"
proof (induction tasks arbitrary: s)
  case Nil
  then show ?case by simp
next
  case (Cons t tasks)
  obtain jf g where t: "t = (jf, g)" by (cases t)
  obtain r s1 where r: "run_single_prediction h jf output_dir af3 date g s = (r, s1)"
    by (cases "run_single_prediction h jf output_dir af3 date g s")
  obtain fs s2 where fs: "run_tasks h output_dir af3 date tasks s1 = (fs, s2)"
    by (cases "run_tasks h output_dir af3 date tasks s1")
  from Cons.IH [of s1] fs have "map fst fs = tasks" by simp
  with t r fs show ?case by simp
qed

lemma run_tasks_wf:
  "f \<in> set (fst (run_tasks h output_dir af3 date tasks s)) \<Longrightarrow> wf_future f"
proof (induction tasks arbitrary: s)
  case Nil
  then show ?case by simp
next
  case (Cons t tasks)
  obtain jf g where t: "t = (jf, g)" by (cases t)
  obtain r s1 where r: "run_single_prediction h jf output_dir af3 date g s = (r, s1)"
    by (cases "run_single_prediction h jf output_dir af3 date g s")
  from run_single_prediction_wf [of jf g h output_dir af3 date s] r
  have wf: "wf_future ((jf, g), r)" by simp
  from Cons.prems t r
  have "f = ((jf, g), r) \<or> f \<in> set (fst (run_tasks h output_dir af3 date tasks s1))"
    by (auto split: prod.splits)
  with wf Cons.IH show ?case by blast
qed

lemma run_tasks_environ:
  "environ (snd (run_tasks h output_dir af3 date tasks s)) = environ s"
proof (induction tasks arbitrary: s)
  case Nil
  then show ?case by simp
next
  case (Cons t tasks)
  obtain jf g where t: "t = (jf, g)" by (cases t)
  obtain r s1 where r: "run_single_prediction h jf output_dir af3 date g s = (r, s1)"
    by (cases "run_single_prediction h jf output_dir af3 date g s")
  from run_single_prediction_environ [of h jf output_dir af3 date g s] r
  have "environ s1 = environ s" by simp
  with Cons.IH [of s1] t r show ?case by (auto split: prod.splits)
qed

lemma as_completed_mset: "mset (as_completed ks xs) = mset xs"
proof (induction ks xs rule: as_completed.induct)
  case (1 picks)
  then show ?case by simp
next
  case (2 f fs)
  then show ?case by simp
next
  case (3 k ks f fs)
  define i where "i = k mod length (f # fs)"
  have i: "i < length (f # fs)" unfolding i_def by simp
  have "mset (f # fs) = mset (take i (f # fs) @ (f # fs) ! i # drop (Suc i) (f # fs))"
    using id_take_nth_drop [OF i] by simp
  also have "\<dots> = add_mset ((f # fs) ! i) (mset (take i (f # fs) @ drop (Suc i) (f # fs)))"
    by simp
  finally show ?case using 3 [OF i_def] by (simp add: i_def Let_def)
qed

lemma as_completed_length: "length (as_completed ks xs) = length xs"
  using as_completed_mset [of ks xs] by (metis size_mset)

lemma as_completed_set: "set (as_completed ks xs) = set xs"
  using as_completed_mset [of ks xs] by (metis set_mset_mset)

lemma collect_one_total: "total_of (collect_one res f) = Suc (total_of res)"
  by (auto simp: collect_one_def total_of_def split: prod.splits sum.splits option.splits)

lemma foldl_collect_total: "total_of (foldl collect_one res fs) = total_of res + length fs"
  by (induction fs arbitrary: res) (simp_all add: collect_one_total)

lemma collect_one_samples:
  "wf_future f \<Longrightarrow>
   mset (map sample_of (all_records (collect_one res f))) =
     add_mset (task_sample f) (mset (map sample_of (all_records res)))"
  by (auto simp: collect_one_def all_records_def wf_future_def wf_record_def sample_of_def
        task_sample_def split: prod.splits sum.splits option.splits)

lemma foldl_collect_samples:
  "\<forall>f \<in> set fs. wf_future f \<Longrightarrow>
   mset (map sample_of (all_records (foldl collect_one res fs))) =
     mset (map sample_of (all_records res)) + mset (map task_sample fs)"
proof (induction fs arbitrary: res)
  case Nil
  then show ?case by simp
next
  case (Cons a fs)
  from Cons.prems have a: "wf_future a" and fs: "\<forall>f \<in> set fs. wf_future f" by simp_all
  from collect_one_samples [OF a, of res] Cons.IH [OF fs, of "collect_one res a"]
  show ?case by simp
qed

lemma prepare_tasks_nth:
  "i < length fs \<Longrightarrow>
   prepare_tasks D k fs ! i = (fs ! i, if D > 0 then Some ((k + i) mod D) else None)"
proof (induction fs arbitrary: k i)
  case Nil
  then show ?case by simp
next
  case (Cons f fs)
  show ?case
  proof (cases i)
    case 0
    then show ?thesis by simp
  next
    case (Suc j)
    with Cons.prems have j: "j < length fs" by simp
    from Cons.IH [OF j, of "Suc k"] Cons.IH [OF j, of k] Suc show ?thesis
      by (cases "D = 0") simp_all
  qed
qed

lemma prepare_tasks_length: "length (prepare_tasks D k fs) = length fs"
  by (induction fs arbitrary: k) auto

lemma prepare_tasks_files: "map fst (prepare_tasks D k fs) = fs"
  by (induction fs arbitrary: k) auto

lemma split_sep_nonempty: "split_sep c s \<noteq> []"
  by (induction s) (auto split: list.splits)

section \<open>Resource detection: the count returned\<close>

lemma detect_gpu_count_absent:
  "nvidia_smi h = SmiNotFound \<Longrightarrow> detect_gpu_count h = Inr 0"
  by (simp add: detect_gpu_count_def)

lemma detect_gpu_count_query_fails:
  "nvidia_smi h = SmiCompleted rc out \<Longrightarrow> rc \<noteq> 0 \<Longrightarrow> detect_gpu_count h = Inr 0"
  by (simp add: detect_gpu_count_def)

lemma detect_gpu_count_query_ok_positive:
  "nvidia_smi h = SmiCompleted 0 out \<Longrightarrow> \<exists>n. detect_gpu_count h = Inr (Suc n)"
  using split_sep_nonempty [of "CHR 0x0A" "strip out"]
  by (cases "split_sep (CHR 0x0A) (strip out)") (simp_all add: detect_gpu_count_def)

text \<open>
  Claim C5.  The Resource Detector is to return 0 when the query facility is absent and when
  it is present but reports no device.  The first holds (\<open>detect_gpu_count_absent\<close>).
  For the second, a query that exits with status 0 and prints nothing lists no device, and
  \<open>detect_gpu_count\<close> returns 1 there: the empty output, stripped and split at newlines,
  is the one-element list of the empty string.  After a successful query the function
  never returns 0 (\<open>detect_gpu_count_query_ok_positive\<close>).
\<close>

theorem detect_gpu_count_empty_output:
  "detect_gpu_count (example_host\<lparr>nvidia_smi := SmiCompleted 0 []\<rparr>) = Inr 1"
  by (simp add: detect_gpu_count_def strip_def)

section \<open>Scheduling: devices and the concurrency bound\<close>

text \<open>
  Claim C3, as amended.  The job at position \<open>i\<close> (from 0) of the validated list, which is
  in the order of the directory listing, is assigned device \<open>i mod D\<close> when \<open>D > 0\<close>, and
  no device when \<open>D = 0\<close>.
\<close>

theorem device_assignment_listing_order:
  assumes "i < length (find_json_files h input_dir listing)"
  shows "prepare_tasks D 0 (find_json_files h input_dir listing) ! i =
           (find_json_files h input_dir listing ! i, if D > 0 then Some (i mod D) else None)"
  using prepare_tasks_nth [OF assms, of D 0] by simp

theorem device_assignment_listing_order_witness:
  "1 < length (find_json_files example_host ''in'' [''b.json'', ''a.json'', ''notes.txt'', ''bad.json'', ''c.json''])
   \<and> prepare_tasks 2 0 (find_json_files example_host ''in'' [''b.json'', ''a.json'', ''notes.txt'', ''bad.json'', ''c.json'']) ! 1
       = (''in/a.json'', Some 1)"
proof -
  have fj: "find_json_files example_host ''in'' [''b.json'', ''a.json'', ''notes.txt'', ''bad.json'', ''c.json'']
              = [''in/b.json'', ''in/a.json'', ''in/c.json'']"
    by (simp add: find_json_files_def candidates_def endswith_def path_join_def example_host_def)
  have len: "1 < length (find_json_files example_host ''in'' [''b.json'', ''a.json'', ''notes.txt'', ''bad.json'', ''c.json''])"
    by (simp add: fj)
  from device_assignment_listing_order [OF len, of 2] len show ?thesis
    by (simp add: fj)
qed

text \<open>
  Claim C3, as stated, speaks of the position in the sorted input order.  The program never
  sorts: with the directory listed as \<open>b.json\<close>, \<open>a.json\<close> and two devices, the first job
  of the sorted order is \<open>in/a.json\<close>, and it is assigned device 1, not \<open>0 mod 2\<close>.
\<close>

theorem device_assignment_sorted_counterexample:
  "sort (find_json_files example_host ''in'' [''b.json'', ''a.json'']) ! 0 = ''in/a.json''
   \<and> map_of (prepare_tasks 2 0 (find_json_files example_host ''in'' [''b.json'', ''a.json'']))
            ''in/a.json'' = Some (Some 1)
   \<and> map_of (prepare_tasks 2 0 (find_json_files example_host ''in'' [''b.json'', ''a.json'']))
            (sort (find_json_files example_host ''in'' [''b.json'', ''a.json'']) ! 0)
       \<noteq> Some (Some (0 mod 2))"
  by code_simp

text \<open>
  Claim C4.  With the host's CPU count \<open>C\<close> (a positive number when the host knows it), the
  effective concurrency bound is \<open>min M D\<close> when \<open>D > 0\<close> and \<open>min M C\<close> when \<open>D = 0\<close>.
\<close>

theorem max_workers_effective_bound:
  assumes "cpu_count h = Some C" and "0 < C"
  shows "max_workers h M D = (if D > 0 then min M (int D) else min M (int C))"
  using assms by (simp add: max_workers_def cpu_count_or_4_def)

theorem max_workers_effective_bound_witness:
  "cpu_count example_host = Some 8 \<and> (0::nat) < 8 \<and>
   max_workers example_host 4 2 = 2 \<and> max_workers example_host 4 0 = 4"
  using max_workers_effective_bound [of example_host 8 4 2]
        max_workers_effective_bound [of example_host 8 4 0]
  by (simp add: example_host_def)

section \<open>The record of one job\<close>

text \<open>
  Claim C10.  When the job's output directory can be created, \<open>run_single_prediction\<close>
  returns a record (it does not raise) whose status is one of success, failed, timeout,
  error, which holds the sample name and the device designation, and which holds a duration
  exactly when the status is success or failed.
\<close>

theorem run_single_prediction_record:
  assumes "can_makedirs h (path_join output_dir (base_name_of json_file))"
  shows "\<exists>r. fst (run_single_prediction h json_file output_dir af3_script max_template_date gpu_id s) = Inr r
           \<and> status_of r \<in> {Some (PyStr ''success''), Some (PyStr ''failed''),
                             Some (PyStr ''timeout''), Some (PyStr ''error'')}
           \<and> r ''sample'' = Some (PyStr (base_name_of json_file))
           \<and> r ''gpu_info'' = Some (PyStr (gpu_info_of gpu_id))
           \<and> ((r ''duration'' \<noteq> None) =
                (status_of r = Some (PyStr ''success'') \<or> status_of r = Some (PyStr ''failed'')))"
  using assms
  by (auto simp: run_single_prediction_def makedirs_def Let_def status_of_def
        split: run_outcome.splits)

theorem run_single_prediction_record_witness:
  "can_makedirs example_host (path_join ''out'' (base_name_of ''in/b.json''))
   \<and> (\<exists>r. fst (run_single_prediction example_host ''in/b.json'' ''out'' ''af3.py'' ''3000-12-01'' (Some 0) initial_state) = Inr r
          \<and> status_of r \<in> {Some (PyStr ''success''), Some (PyStr ''failed''),
                            Some (PyStr ''timeout''), Some (PyStr ''error'')}
          \<and> r ''sample'' = Some (PyStr (base_name_of ''in/b.json''))
          \<and> r ''gpu_info'' = Some (PyStr (gpu_info_of (Some 0)))
          \<and> ((r ''duration'' \<noteq> None) =
               (status_of r = Some (PyStr ''success'') \<or> status_of r = Some (PyStr ''failed''))))"
proof -
  have mk: "can_makedirs example_host (path_join ''out'' (base_name_of ''in/b.json''))"
    by (simp add: example_host_def)
  from run_single_prediction_record [OF mk] mk show ?thesis by blast
qed

section \<open>The environment of a child process\<close>

lemma run_tasks_launched:
  "launched (snd (run_tasks h output_dir af3 date tasks s)) =
     launched s @
     map (\<lambda>t. (build_cmd af3 (fst t) (path_join output_dir (base_name_of (fst t))) date,
               child_env (environ s) (snd t)))
         (filter (\<lambda>t. can_makedirs h (path_join output_dir (base_name_of (fst t)))) tasks)"
proof (induction tasks arbitrary: s)
  case Nil
  then show ?case by simp
next
  case (Cons t tasks)
  obtain jf g where t: "t = (jf, g)" by (cases t)
  obtain r s1 where r: "run_single_prediction h jf output_dir af3 date g s = (r, s1)"
    by (cases "run_single_prediction h jf output_dir af3 date g s")
  obtain fs s2 where fs: "run_tasks h output_dir af3 date tasks s1 = (fs, s2)"
    by (cases "run_tasks h output_dir af3 date tasks s1")
  from run_single_prediction_environ [of h jf output_dir af3 date g s] r
  have env: "environ s1 = environ s" by simp
  from run_single_prediction_launched [of h jf output_dir af3 date g s] r
  have l1: "launched s1 = launched s @
     (if can_makedirs h (path_join output_dir (base_name_of jf))
      then [(build_cmd af3 jf (path_join output_dir (base_name_of jf)) date,
             child_env (environ s) g)]
      else [])" by simp
  from Cons.IH [of s1] fs env
  have "launched s2 = launched s1 @
     map (\<lambda>t. (build_cmd af3 (fst t) (path_join output_dir (base_name_of (fst t))) date,
               child_env (environ s) (snd t)))
         (filter (\<lambda>t. can_makedirs h (path_join output_dir (base_name_of (fst t)))) tasks)"
    by simp
  with l1 t r fs show ?case by simp
qed

text \<open>
  Claim C9.  Running a task leaves \<open>os.environ\<close> as it was.  The environment handed to
  the child is \<open>os.environ\<close> with the device-selection variable set to the text of the
  assigned device, or removed in CPU mode, and nothing else changed.  Over a whole batch
  the process-wide environment is unchanged too, and the environment of each child is
  made from the environment the batch started with and that task's own device.
\<close>

theorem child_environment_task_local:
  "environ (snd (run_single_prediction h json_file output_dir af3_script max_template_date gpu_id s)) = environ s
   \<and> launched (snd (run_single_prediction h json_file output_dir af3_script max_template_date gpu_id s)) =
       launched s @
       (if can_makedirs h (path_join output_dir (base_name_of json_file))
        then [(build_cmd af3_script json_file (path_join output_dir (base_name_of json_file)) max_template_date,
               (environ s)(''CUDA_VISIBLE_DEVICES'' := map_option str_nat gpu_id))]
        else [])
   \<and> environ (snd (run_tasks h output_dir af3_script max_template_date tasks s)) = environ s
   \<and> map snd (launched (snd (run_tasks h output_dir af3_script max_template_date tasks s))) =
       map snd (launched s) @
       map (\<lambda>t. (environ s)(''CUDA_VISIBLE_DEVICES'' := map_option str_nat (snd t)))
           (filter (\<lambda>t. can_makedirs h (path_join output_dir (base_name_of (fst t)))) tasks)"
proof -
  have ce: "\<And>g. child_env (environ s) g = (environ s)(''CUDA_VISIBLE_DEVICES'' := map_option str_nat g)"
    by (simp add: child_env_def split: option.splits)
  show ?thesis
    by (simp add: run_single_prediction_environ run_single_prediction_launched
          run_tasks_environ run_tasks_launched ce comp_def)
qed

theorem child_environment_task_local_witness:
  "environ (snd (run_single_prediction example_host ''in/a.json'' ''out'' ''af3.py'' ''3000-12-01'' (Some 1) initial_state))
     = environ initial_state
   \<and> environ initial_state ''CUDA_VISIBLE_DEVICES'' = Some ''7''
   \<and> map (\<lambda>e. e ''CUDA_VISIBLE_DEVICES'')
       (map snd (launched (snd (run_tasks example_host ''out'' ''af3.py'' ''3000-12-01''
                                 [(''in/b.json'', Some 0), (''in/a.json'', Some 1), (''in/c.json'', None)]
                                 initial_state))))
       = [Some ''0'', Some ''1'', None]
   \<and> map (\<lambda>e. e ''PATH'')
       (map snd (launched (snd (run_tasks example_host ''out'' ''af3.py'' ''3000-12-01''
                                 [(''in/b.json'', Some 0), (''in/a.json'', Some 1), (''in/c.json'', None)]
                                 initial_state))))
       = [Some ''/usr/bin'', Some ''/usr/bin'', Some ''/usr/bin'']"
proof -
  note th = child_environment_task_local [of example_host "''in/a.json''" "''out''" "''af3.py''" "''3000-12-01''" "Some 1" initial_state
          "[(''in/b.json'', Some 0), (''in/a.json'', Some 1), (''in/c.json'', None)]"]
  from th have e: "environ (snd (run_single_prediction example_host ''in/a.json'' ''out'' ''af3.py'' ''3000-12-01'' (Some 1) initial_state))
     = environ initial_state"
    by (rule conjunct1)
  from th have l: "map snd (launched (snd (run_tasks example_host ''out'' ''af3.py'' ''3000-12-01''
                                 [(''in/b.json'', Some 0), (''in/a.json'', Some 1), (''in/c.json'', None)]
                                 initial_state))) =
       map snd (launched initial_state) @
       map (\<lambda>t. (environ initial_state)(''CUDA_VISIBLE_DEVICES'' := map_option str_nat (snd t)))
           (filter (\<lambda>t. can_makedirs example_host (path_join ''out'' (base_name_of (fst t))))
              [(''in/b.json'', Some 0), (''in/a.json'', Some 1), (''in/c.json'', None)])"
    by blast
  show ?thesis
    by (simp only: e l simp_thms, code_simp)
qed

section \<open>The success rate of the report\<close>

lemma success_rate_positive:
  "0 < total_tasks \<Longrightarrow>
   success_rate success_count total_tasks = Inr (of_nat success_count / of_nat total_tasks * 100)"
  by (simp add: success_rate_def)

lemma generate_summary_report_empty_raises:
  "isdir h s output_dir \<Longrightarrow>
   fst (generate_summary_report h empty_results output_dir s) = Inl ZeroDivisionError"
  by (simp add: generate_summary_report_def empty_results_def report_writes_def
        success_rate_def Let_def)

text \<open>
  Claim C1.  With a positive total the rate written is \<open>succeeded / total * 100\<close>
  (\<open>success_rate_positive\<close>).  With no task the report is to say so without dividing;
  \<open>generate_summary_report\<close> divides all the same: on the empty buckets, which
  \<open>run_batch_predictions\<close> returns for a missing input directory or when no file is
  valid, it raises \<open>ZeroDivisionError\<close> after the twelve lines written before the rate.
\<close>

theorem generate_summary_report_no_tasks:
  "fst (generate_summary_report example_host empty_results ''out'' initial_state) = Inl ZeroDivisionError
   \<and> files (snd (generate_summary_report example_host empty_results ''out'' initial_state)) ''out/run_summary.txt''
       = Some [HeavyRule, TitleLine, HeavyRule, RunTime, OutputDir ''out'', LightRule,
               StatsTitle, LightRule, TotalTasks 0, SuccessCount 0, FailedCount 0, ErrorCount 0]"
  by (simp add: generate_summary_report_def isdir_def example_host_def initial_state_def
        empty_results_def report_writes_def success_rate_def path_join_def Let_def)

section \<open>The timeout ceiling\<close>

text \<open>
  Claim C8, as stated, has the ceiling configurable by \<open>--job-timeout-seconds\<close>.  The
  parser declares no such option: given it, the program exits with status 2 and nothing
  is dispatched.
\<close>

theorem job_timeout_option_counterexample:
  "parse_args [''--input_dir'', ''in'', ''--output_dir'', ''out'', ''--job-timeout-seconds'', ''10''] = Inl 2
   \<and> main example_host [''--input_dir'', ''in'', ''--output_dir'', ''out'', ''--job-timeout-seconds'', ''10'']
        initial_state = (SysExit 2, initial_state)"
  by (simp add: main_def parse_args_def default_namespace_def)

text \<open>
  Claim C8, as amended.  The ceiling is the constant 3600 seconds: a job whose directory can
  be created and whose process starts is marked timeout exactly when the process needs more
  than 3600 seconds or never exits.
\<close>

theorem fixed_timeout_ceiling:
  assumes "can_makedirs h (path_join output_dir (base_name_of json_file))"
    and "proc h (build_cmd af3_script json_file (path_join output_dir (base_name_of json_file)) max_template_date)
              (child_env (environ s) gpu_id) = Runs need returncode err"
  shows "\<exists>r. fst (run_single_prediction h json_file output_dir af3_script max_template_date gpu_id s) = Inr r
           \<and> ((status_of r = Some (PyStr ''timeout'')) = (case need of None \<Rightarrow> True | Some t \<Rightarrow> 3600 < t))"
  using assms
  by (auto simp: run_single_prediction_def makedirs_def Let_def status_of_def subprocess_run_def
        split: option.splits)

theorem fixed_timeout_ceiling_witness:
  "can_makedirs example_host (path_join ''out'' (base_name_of ''in/b.json''))
   \<and> proc example_host (build_cmd ''af3.py'' ''in/b.json'' (path_join ''out'' (base_name_of ''in/b.json'')) ''3000-12-01'')
         (child_env (environ initial_state) (Some 0)) = Runs None 0 []
   \<and> (\<exists>r. fst (run_single_prediction example_host ''in/b.json'' ''out'' ''af3.py'' ''3000-12-01'' (Some 0) initial_state) = Inr r
          \<and> status_of r = Some (PyStr ''timeout''))"
proof -
  have mk: "can_makedirs example_host (path_join ''out'' (base_name_of ''in/b.json''))"
    by (simp add: example_host_def)
  have beh: "proc example_host (build_cmd ''af3.py'' ''in/b.json'' (path_join ''out'' (base_name_of ''in/b.json'')) ''3000-12-01'')
         (child_env (environ initial_state) (Some 0)) = Runs None 0 []"
    by (simp add: example_host_def example_proc_def build_cmd_def path_join_def base_name_of_def
          splitext_root_def basename_def)
  from fixed_timeout_ceiling [OF mk beh] mk beh show ?thesis by simp
qed

section \<open>The bucket of an outcome\<close>

text \<open>
  Claim C2, as amended.  There are three buckets.  A task whose record has status success is
  appended to \<open>success\<close>; a task whose record has another status (failed for a non-zero
  exit, timeout for a process that exceeds the ceiling, error for a process that cannot be
  started) is appended to \<open>failed\<close>; a task whose future raises (its output directory
  cannot be created) is appended to \<open>errors\<close>.
\<close>

theorem outcome_buckets:
  "if can_makedirs h (path_join output_dir (base_name_of json_file))
   then (\<exists>r. fst (run_single_prediction h json_file output_dir af3_script max_template_date gpu_id s) = Inr r \<and>
          (case subprocess_run h
                  (build_cmd af3_script json_file (path_join output_dir (base_name_of json_file)) max_template_date)
                  (child_env (environ s) gpu_id) 3600 of
             RunCompleted returncode err duration \<Rightarrow>
               if returncode = 0
               then status_of r = Some (PyStr ''success'') \<and>
                    dispatch_and_collect h json_file output_dir af3_script max_template_date gpu_id s res
                      = res\<lparr>success := success res @ [r]\<rparr>
               else status_of r = Some (PyStr ''failed'') \<and>
                    dispatch_and_collect h json_file output_dir af3_script max_template_date gpu_id s res
                      = res\<lparr>failed := failed res @ [r]\<rparr>
           | RunTimeoutExpired \<Rightarrow>
               status_of r = Some (PyStr ''timeout'') \<and>
               dispatch_and_collect h json_file output_dir af3_script max_template_date gpu_id s res
                 = res\<lparr>failed := failed res @ [r]\<rparr>
           | RunRaised e \<Rightarrow>
               status_of r = Some (PyStr ''error'') \<and>
               dispatch_and_collect h json_file output_dir af3_script max_template_date gpu_id s res
                 = res\<lparr>failed := failed res @ [r]\<rparr>))
   else dispatch_and_collect h json_file output_dir af3_script max_template_date gpu_id s res
          = res\<lparr>errors := errors res @
                [Map.empty(''sample'' \<mapsto> PyStr (base_name_of json_file),
                           ''error'' \<mapsto> PyStr (str_exn (makedirs_exn h
                                                (path_join output_dir (base_name_of json_file)))))]\<rparr>"
  by (auto simp: dispatch_and_collect_def collect_one_def run_single_prediction_def makedirs_def
        Let_def status_of_def split: run_outcome.splits)

text \<open>
  Claim C2, as stated, keeps a timed out job out of the failed bucket.  On the concrete
  host the job \<open>b\<close> never exits: its record, of status timeout, is the first of the
  failed bucket, before the record of job \<open>c\<close>, which exits with 2.
\<close>

theorem timeout_bucket_counterexample:
  "map_sum id failed_statuses
     (fst (run_batch_predictions example_host ''in'' ''out'' ''af3.py'' 4 ''3000-12-01'' initial_state))
   = Inr [Some (PyStr ''timeout''), Some (PyStr ''failed'')]"
  by code_simp

section \<open>Conservation of the outcomes\<close>

lemma count_status_partition:
  "list_all failed_status rs \<Longrightarrow>
   count_status ''failed'' rs + count_status ''timeout'' rs + count_status ''error'' rs = length rs"
  by (induction rs) (auto simp: count_status_def failed_status_def)

lemma good_results_empty: "good_results empty_results"
  by (simp add: good_results_def empty_results_def)

lemma collect_one_good:
  "wf_future f \<Longrightarrow> good_results res \<Longrightarrow> good_results (collect_one res f)"
  by (auto simp: collect_one_def good_results_def wf_future_def wf_record_def failed_status_def
        success_entry_def failed_entry_def error_entry_def status_of_def
        split: prod.splits sum.splits option.splits)

lemma foldl_collect_good:
  "\<forall>f \<in> set fs. wf_future f \<Longrightarrow> good_results res \<Longrightarrow> good_results (foldl collect_one res fs)"
  by (induction fs arbitrary: res) (simp_all add: collect_one_good)

lemma total_of_empty: "total_of empty_results = 0"
  by (simp add: total_of_def empty_results_def)

lemma all_records_empty: "all_records empty_results = []"
  by (simp add: all_records_def empty_results_def)

lemma run_batch_result:
  assumes "listdir h input_dir = Some listing"
    and "fst (run_batch_predictions h input_dir output_dir af3 M date s) = Inr res"
  shows "(find_json_files h input_dir listing = [] \<and> res = empty_results) \<or>
         (\<exists>D s1. res = collect (as_completed (completion h)
                     (fst (run_tasks h output_dir af3 date
                             (prepare_tasks D 0 (find_json_files h input_dir listing)) s1))))"
  using assms
  by (auto simp: run_batch_predictions_def Let_def split: sum.splits prod.splits if_splits)
     (metis fst_conv)

lemma collected_batch:
  assumes "res = collect (as_completed ks (fst (run_tasks h output_dir af3 date (prepare_tasks D 0 json_files) s1)))"
  shows "total_of res = length json_files"
    and "good_results res"
    and "mset (map sample_of (all_records res)) = mset (map (\<lambda>f. Some (PyStr (base_name_of f))) json_files)"
proof -
  define futures where "futures = fst (run_tasks h output_dir af3 date (prepare_tasks D 0 json_files) s1)"
  define completed where "completed = as_completed ks futures"
  have wf: "\<forall>f \<in> set futures. wf_future f"
    unfolding futures_def using run_tasks_wf by blast
  have tasks: "map fst futures = prepare_tasks D 0 json_files"
    unfolding futures_def by (rule run_tasks_tasks)
  have wf': "\<forall>f \<in> set completed. wf_future f"
    unfolding completed_def using wf by (simp add: as_completed_set)
  have res: "res = foldl collect_one empty_results completed"
    using assms by (simp add: collect_def completed_def futures_def)
  have "length completed = length futures" unfolding completed_def by (rule as_completed_length)
  also have "\<dots> = length (map fst futures)" by simp
  also have "\<dots> = length json_files" by (simp only: tasks prepare_tasks_length)
  finally have len: "length completed = length json_files" .
  show "total_of res = length json_files"
    by (simp add: res foldl_collect_total total_of_empty len)
  show "good_results res"
    unfolding res using wf' good_results_empty by (rule foldl_collect_good)
  have "map task_sample futures = map (\<lambda>f. Some (PyStr (base_name_of f))) (map fst (map fst futures))"
    by (simp add: task_sample_def comp_def)
  also have "\<dots> = map (\<lambda>f. Some (PyStr (base_name_of f))) json_files"
    by (simp only: tasks prepare_tasks_files)
  finally have ts: "map task_sample futures = map (\<lambda>f. Some (PyStr (base_name_of f))) json_files" .
  have "mset (map task_sample completed) = image_mset task_sample (mset completed)" by simp
  also have "\<dots> = image_mset task_sample (mset futures)"
    unfolding completed_def by (simp only: as_completed_mset)
  also have "\<dots> = mset (map task_sample futures)" by simp
  finally have md: "mset (map task_sample completed) = mset (map task_sample futures)" .
  from foldl_collect_samples [OF wf', of empty_results] md ts
  show "mset (map sample_of (all_records res)) = mset (map (\<lambda>f. Some (PyStr (base_name_of f))) json_files)"
    by (simp add: res all_records_empty)
qed

lemma candidates_split:
  "length (find_json_files h input_dir listing) + length (skipped_files h input_dir listing)
     = length (candidates listing)"
proof -
  have "length (filter (validate_json_file h) (map (path_join input_dir) (candidates listing)))
        = length (filter (\<lambda>f. validate_json_file h (path_join input_dir f)) (candidates listing))"
    by (simp add: filter_map comp_def)
  then show ?thesis
    using sum_length_filter_compl [of "\<lambda>f. validate_json_file h (path_join input_dir f)" "candidates listing"]
    by (simp add: find_json_files_def skipped_files_def)
qed

text \<open>
  Claim C7.  When the batch returns its buckets, every dispatched task is in exactly one of
  them: the three buckets together hold as many records as there are validated files, and so
  do the four outcome classes (succeeded, failed, timed out, error; the last three are read
  off the status of the records of the failed bucket, and error also counts the errors
  bucket).  The validated files and the skipped ones together are the candidates.  The sample
  names in the buckets are those of the validated files, each as often as it was dispatched,
  and every dispatched file passed validation: a rejected candidate is in no bucket.
\<close>

theorem outcome_conservation:
  assumes "listdir h input_dir = Some listing"
    and "fst (run_batch_predictions h input_dir output_dir af3_script max_concurrent max_template_date s) = Inr res"
  shows "length (success res) + length (failed res) + length (errors res)
           = length (find_json_files h input_dir listing)
         \<and> length (success res) + count_status ''failed'' (failed res)
             + count_status ''timeout'' (failed res)
             + (count_status ''error'' (failed res) + length (errors res))
           = length (find_json_files h input_dir listing)
         \<and> length (find_json_files h input_dir listing) + length (skipped_files h input_dir listing)
           = length (candidates listing)
         \<and> mset (map sample_of (success res @ failed res @ errors res))
           = mset (map (\<lambda>f. Some (PyStr (base_name_of f))) (find_json_files h input_dir listing))
         \<and> list_all (validate_json_file h) (find_json_files h input_dir listing)"
proof -
  define json_files where "json_files = find_json_files h input_dir listing"
  have props: "total_of res = length json_files \<and> good_results res \<and>
         mset (map sample_of (all_records res)) = mset (map (\<lambda>f. Some (PyStr (base_name_of f))) json_files)"
  proof -
    from run_batch_result [OF assms]
    consider (none) "json_files = []" "res = empty_results"
      | (some) D s1 where "res = collect (as_completed (completion h)
                     (fst (run_tasks h output_dir af3_script max_template_date
                             (prepare_tasks D 0 json_files) s1)))"
      unfolding json_files_def by blast
    then show ?thesis
    proof cases
      case none
      then show ?thesis by (simp add: total_of_empty good_results_empty all_records_empty)
    next
      case some
      from collected_batch [OF some] show ?thesis by simp
    qed
  qed
  from props have fs: "list_all failed_status (failed res)" by (simp add: good_results_def)
  from count_status_partition [OF fs] props candidates_split [of h input_dir listing]
  show ?thesis
    by (simp add: total_of_def all_records_def json_files_def find_json_files_def list_all_iff)
qed

theorem outcome_conservation_witness:
  "listdir example_host ''in'' = Some [''b.json'', ''a.json'', ''notes.txt'', ''bad.json'', ''c.json'']
   \<and> (\<exists>res. fst (run_batch_predictions example_host ''in'' ''out'' ''af3.py'' 4 ''3000-12-01'' initial_state) = Inr res
          \<and> length (success res) + length (failed res) + length (errors res) = 3
          \<and> length (success res) + count_status ''failed'' (failed res)
               + count_status ''timeout'' (failed res)
               + (count_status ''error'' (failed res) + length (errors res)) = 3
          \<and> 3 + length (skipped_files example_host ''in'' [''b.json'', ''a.json'', ''notes.txt'', ''bad.json'', ''c.json'']) = 4)"
proof -
  have ld: "listdir example_host ''in'' = Some [''b.json'', ''a.json'', ''notes.txt'', ''bad.json'', ''c.json'']"
    by (simp add: example_host_def)
  have "\<not> isl (fst (run_batch_predictions example_host ''in'' ''out'' ''af3.py'' 4 ''3000-12-01'' initial_state))"
    by code_simp
  then obtain res where r: "fst (run_batch_predictions example_host ''in'' ''out'' ''af3.py'' 4 ''3000-12-01'' initial_state) = Inr res"
    by (cases "fst (run_batch_predictions example_host ''in'' ''out'' ''af3.py'' 4 ''3000-12-01'' initial_state)") auto
  have fj: "length (find_json_files example_host ''in'' [''b.json'', ''a.json'', ''notes.txt'', ''bad.json'', ''c.json'']) = 3"
    by code_simp
  have cand: "length (candidates [''b.json'', ''a.json'', ''notes.txt'', ''bad.json'', ''c.json'']) = 4"
    by code_simp
  from outcome_conservation [OF ld r] fj cand
  have "length (success res) + length (failed res) + length (errors res) = 3
          \<and> length (success res) + count_status ''failed'' (failed res)
               + count_status ''timeout'' (failed res)
               + (count_status ''error'' (failed res) + length (errors res)) = 3
          \<and> 3 + length (skipped_files example_host ''in'' [''b.json'', ''a.json'', ''notes.txt'', ''bad.json'', ''c.json'']) = 4"
    by simp
  with ld r show ?thesis by blast
qed

section \<open>The exit status of the program\<close>

lemma write_all_ok:
  "list_all (\<lambda>x. \<exists>l. x = Inr l) ws \<Longrightarrow> write_all ws written = (Inr (), written @ map projr ws)"
  by (induction ws written rule: write_all.induct) auto

lemma report_writes_ok:
  assumes "good_results res" and "0 < total_of res"
  shows "list_all (\<lambda>x. \<exists>l. x = Inr l) (report_writes res output_dir)"
  using assms
  by (auto simp: report_writes_def good_results_def total_of_def success_rate_def Let_def
        list_all_iff)

lemma generate_summary_report_ok:
  assumes "good_results res" and "0 < total_of res" and "isdir h s output_dir"
  shows "generate_summary_report h res output_dir s =
           (Inr (), s\<lparr>files := (files s)(path_join output_dir ''run_summary.txt'' \<mapsto>
                                          map projr (report_writes res output_dir))\<rparr>)"
  using assms write_all_ok [OF report_writes_ok [OF assms(1,2)], of output_dir "[]"]
  by (simp add: generate_summary_report_def Let_def)

lemma run_single_prediction_made_dirs:
  "set (made_dirs s) \<subseteq> set (made_dirs (snd (run_single_prediction h json_file output_dir af3 date gpu s)))"
  by (auto simp: run_single_prediction_def makedirs_def Let_def split: run_outcome.splits)

lemma run_tasks_made_dirs:
  "set (made_dirs s) \<subseteq> set (made_dirs (snd (run_tasks h output_dir af3 date tasks s)))"
proof (induction tasks arbitrary: s)
  case Nil
  then show ?case by simp
next
  case (Cons t tasks)
  obtain jf g where t: "t = (jf, g)" by (cases t)
  obtain r s1 where r: "run_single_prediction h jf output_dir af3 date g s = (r, s1)"
    by (cases "run_single_prediction h jf output_dir af3 date g s")
  obtain fs s2 where fs: "run_tasks h output_dir af3 date tasks s1 = (fs, s2)"
    by (cases "run_tasks h output_dir af3 date tasks s1")
  from run_single_prediction_made_dirs [of s h jf output_dir af3 date g] r
  have "set (made_dirs s) \<subseteq> set (made_dirs s1)" by simp
  moreover from Cons.IH [of s1] fs have "set (made_dirs s1) \<subseteq> set (made_dirs s2)" by simp
  ultimately show ?case using t r fs by simp
qed

lemma run_batch_missing_input:
  "listdir h input_dir = None \<Longrightarrow>
   run_batch_predictions h input_dir output_dir af3 M date s = (Inr empty_results, s)"
  by (simp add: run_batch_predictions_def)

lemma run_batch_dispatch:
  assumes "listdir h input_dir = Some listing"
    and "find_json_files h input_dir listing \<noteq> []"
    and "detect_gpu_count h = Inr D"
    and "can_makedirs h output_dir"
    and "0 < max_workers h M D"
  shows "\<exists>res s2. run_batch_predictions h input_dir output_dir af3 M date s = (Inr res, s2)
           \<and> good_results res \<and> 0 < total_of res \<and> isdir h s2 output_dir"
proof -
  define s1 where "s1 = s\<lparr>made_dirs := made_dirs s @ [output_dir]\<rparr>"
  define tasks where "tasks = prepare_tasks D 0 (find_json_files h input_dir listing)"
  obtain futures s2 where rt: "run_tasks h output_dir af3 date tasks s1 = (futures, s2)"
    by (cases "run_tasks h output_dir af3 date tasks s1")
  define res where "res = collect (as_completed (completion h) futures)"
  have rb: "run_batch_predictions h input_dir output_dir af3 M date s = (Inr res, s2)"
    using assms rt
    by (simp add: run_batch_predictions_def Let_def makedirs_def s1_def tasks_def res_def)
  have res': "res = collect (as_completed (completion h)
                 (fst (run_tasks h output_dir af3 date (prepare_tasks D 0 (find_json_files h input_dir listing)) s1)))"
    using rt by (simp add: res_def tasks_def)
  from collected_batch [OF res'] assms(2)
  have g: "good_results res" and t: "0 < total_of res" by simp_all
  from run_tasks_made_dirs [of s1 h output_dir af3 date tasks] rt
  have "output_dir \<in> set (made_dirs s2)" by (auto simp: s1_def)
  then have d: "isdir h s2 output_dir" by (simp add: isdir_def split: option.splits)
  from rb g t d show ?thesis by blast
qed

text \<open>
  Claim C6, as amended.  When the configured executable does not exist the program exits with
  status 1 and changes nothing: no job is dispatched and no report is written.  When the
  input directory is missing the program does not take that exit: the batch returns empty
  buckets, no directory is created and no job is dispatched, and the program goes on to the
  report generator with the empty buckets, which opens the report file when the output
  directory exists.  When the input directory
  holds a valid descriptor, the device query does not raise, the output directory can be
  created and the concurrency bound is positive, the program writes the whole report and
  exits with status 0, whatever the outcomes of the jobs.
\<close>

theorem main_exit_codes:
  assumes "parse_args argv = Inr args"
    and "arg_input_dir args = Some input_dir"
    and "arg_output_dir args = Some output_dir"
  shows "(\<not> path_exists h (arg_af3_script args) \<longrightarrow> main h argv s = (SysExit 1, s))
       \<and> (path_exists h (arg_af3_script args) \<and> listdir h input_dir = None \<longrightarrow>
            run_batch_predictions h input_dir output_dir (arg_af3_script args)
              (arg_max_concurrent args) (arg_max_template_date args) s = (Inr empty_results, s)
            \<and> snd (main h argv s) = snd (generate_summary_report h empty_results output_dir s)
            \<and> fst (main h argv s) \<noteq> SysExit 1
            \<and> (isdir h s output_dir \<longrightarrow>
                 files (snd (main h argv s)) (path_join output_dir ''run_summary.txt'') \<noteq> None)
            \<and> launched (snd (main h argv s)) = launched s
            \<and> made_dirs (snd (main h argv s)) = made_dirs s)
       \<and> (path_exists h (arg_af3_script args) \<and> listdir h input_dir = Some listing
            \<and> find_json_files h input_dir listing \<noteq> []
            \<and> detect_gpu_count h = Inr D \<and> can_makedirs h output_dir
            \<and> 0 < max_workers h (arg_max_concurrent args) D \<longrightarrow>
            exit_code (fst (main h argv s)) = 0
            \<and> (\<exists>res. fst (run_batch_predictions h input_dir output_dir (arg_af3_script args)
                              (arg_max_concurrent args) (arg_max_template_date args) s) = Inr res
                  \<and> files (snd (main h argv s)) (path_join output_dir ''run_summary.txt'')
                      = Some (map projr (report_writes res output_dir))))"
proof (intro conjI impI)
  assume "\<not> path_exists h (arg_af3_script args)"
  with assms show "main h argv s = (SysExit 1, s)" by (simp add: main_def)
next
  assume a: "path_exists h (arg_af3_script args) \<and> listdir h input_dir = None"
  then show rb: "run_batch_predictions h input_dir output_dir (arg_af3_script args)
                   (arg_max_concurrent args) (arg_max_template_date args) s = (Inr empty_results, s)"
    by (simp add: run_batch_missing_input)
  obtain r s2 where g: "generate_summary_report h empty_results output_dir s = (r, s2)"
    by (cases "generate_summary_report h empty_results output_dir s")
  have m: "main h argv s = (case r of Inl e \<Rightarrow> Uncaught e | Inr u \<Rightarrow> Uncaught ZeroDivisionError, s2)"
    using assms a rb g by (simp add: main_def Let_def empty_results_def split: sum.splits)
  show sm: "snd (main h argv s) = snd (generate_summary_report h empty_results output_dir s)"
    by (simp add: m g)
  show "fst (main h argv s) \<noteq> SysExit 1"
    by (simp add: m split: sum.splits)
  show "launched (snd (main h argv s)) = launched s"
    and "made_dirs (snd (main h argv s)) = made_dirs s"
    by (simp_all add: sm generate_summary_report_def Let_def split: prod.splits)
  {
    assume "isdir h s output_dir"
    then show "files (snd (main h argv s)) (path_join output_dir ''run_summary.txt'') \<noteq> None"
      by (simp add: sm generate_summary_report_def Let_def split: prod.splits)
  }
next
  assume a: "path_exists h (arg_af3_script args) \<and> listdir h input_dir = Some listing
            \<and> find_json_files h input_dir listing \<noteq> []
            \<and> detect_gpu_count h = Inr D \<and> can_makedirs h output_dir
            \<and> 0 < max_workers h (arg_max_concurrent args) D"
  from a run_batch_dispatch [of h input_dir listing D output_dir "arg_max_concurrent args"
         "arg_af3_script args" "arg_max_template_date args" s]
  obtain res s2 where rb: "run_batch_predictions h input_dir output_dir (arg_af3_script args)
                   (arg_max_concurrent args) (arg_max_template_date args) s = (Inr res, s2)"
    and g: "good_results res" and t: "0 < total_of res" and d: "isdir h s2 output_dir"
    by blast
  note gr = generate_summary_report_ok [OF g t d]
  from t have t': "length (success res) + length (failed res) + length (errors res) \<noteq> 0"
    by (simp add: total_of_def)
  have m: "main h argv s = (Returned, s2\<lparr>files := (files s2)(path_join output_dir ''run_summary.txt'' \<mapsto>
                                          map projr (report_writes res output_dir))\<rparr>)"
    using assms a rb gr t' by (simp add: main_def Let_def)
  show "exit_code (fst (main h argv s)) = 0" by (simp add: m)
  show "\<exists>res. fst (run_batch_predictions h input_dir output_dir (arg_af3_script args)
                              (arg_max_concurrent args) (arg_max_template_date args) s) = Inr res
                  \<and> files (snd (main h argv s)) (path_join output_dir ''run_summary.txt'')
                      = Some (map projr (report_writes res output_dir))"
    using rb m by simp
qed

theorem main_exit_codes_witness:
  "parse_args [''--input_dir'', ''in'', ''--output_dir'', ''out'']
     = Inr (default_namespace\<lparr>arg_input_dir := Some ''in'', arg_output_dir := Some ''out''\<rparr>)
   \<and> main (example_host\<lparr>path_exists := (\<lambda>p. False)\<rparr>) [''--input_dir'', ''in'', ''--output_dir'', ''out''] initial_state
       = (SysExit 1, initial_state)
   \<and> listdir example_host ''nowhere'' = None
   \<and> snd (main example_host [''--input_dir'', ''nowhere'', ''--output_dir'', ''out''] initial_state)
       = snd (generate_summary_report example_host empty_results ''out'' initial_state)
   \<and> fst (main example_host [''--input_dir'', ''nowhere'', ''--output_dir'', ''out''] initial_state) \<noteq> SysExit 1
   \<and> isdir example_host initial_state ''out''
   \<and> files (snd (main example_host [''--input_dir'', ''nowhere'', ''--output_dir'', ''out''] initial_state))
        (path_join ''out'' ''run_summary.txt'') \<noteq> None
   \<and> launched (snd (main example_host [''--input_dir'', ''nowhere'', ''--output_dir'', ''out''] initial_state))
       = launched initial_state
   \<and> exit_code (fst (main example_host [''--input_dir'', ''in'', ''--output_dir'', ''out''] initial_state)) = 0"
proof -
  define args where "args = default_namespace\<lparr>arg_input_dir := Some ''in'', arg_output_dir := Some ''out''\<rparr>"
  define args' where "args' = default_namespace\<lparr>arg_input_dir := Some ''nowhere'', arg_output_dir := Some ''out''\<rparr>"
  have pa: "parse_args [''--input_dir'', ''in'', ''--output_dir'', ''out''] = Inr args"
    by (simp add: parse_args_def default_namespace_def args_def)
  have pa': "parse_args [''--input_dir'', ''nowhere'', ''--output_dir'', ''out''] = Inr args'"
    by (simp add: parse_args_def default_namespace_def args'_def)
  have i: "arg_input_dir args = Some ''in''" and o: "arg_output_dir args = Some ''out''"
    and i': "arg_input_dir args' = Some ''nowhere''" and o': "arg_output_dir args' = Some ''out''"
    and mc: "arg_max_concurrent args = 4"
    by (simp_all add: args_def args'_def default_namespace_def)
  have ex: "path_exists example_host (arg_af3_script args)"
    and ex': "path_exists example_host (arg_af3_script args')"
    and nex: "\<not> path_exists (example_host\<lparr>path_exists := (\<lambda>p. False)\<rparr>) (arg_af3_script args)"
    by (simp_all add: example_host_def)
  have nowhere: "listdir example_host ''nowhere'' = None"
    by (simp add: example_host_def)
  have ld: "listdir example_host ''in'' = Some [''b.json'', ''a.json'', ''notes.txt'', ''bad.json'', ''c.json'']"
    by (simp add: example_host_def)
  have fj: "find_json_files example_host ''in'' [''b.json'', ''a.json'', ''notes.txt'', ''bad.json'', ''c.json''] \<noteq> []"
    by code_simp
  have dg: "detect_gpu_count example_host = Inr 2"
    by code_simp
  have mk: "can_makedirs example_host ''out''"
    by (simp add: example_host_def)
  have mw: "0 < max_workers example_host (arg_max_concurrent args) 2"
    by (simp add: mc max_workers_def)
  from main_exit_codes [OF pa i o, of "example_host\<lparr>path_exists := (\<lambda>p. False)\<rparr>" initial_state] nex
  have c1: "main (example_host\<lparr>path_exists := (\<lambda>p. False)\<rparr>) [''--input_dir'', ''in'', ''--output_dir'', ''out''] initial_state
       = (SysExit 1, initial_state)"
    by blast
  have od: "isdir example_host initial_state ''out''"
    by (simp add: isdir_def example_host_def)
  from main_exit_codes [OF pa' i' o', of example_host initial_state] ex' nowhere od
  have c2: "snd (main example_host [''--input_dir'', ''nowhere'', ''--output_dir'', ''out''] initial_state)
       = snd (generate_summary_report example_host empty_results ''out'' initial_state)
   \<and> fst (main example_host [''--input_dir'', ''nowhere'', ''--output_dir'', ''out''] initial_state) \<noteq> SysExit 1
   \<and> files (snd (main example_host [''--input_dir'', ''nowhere'', ''--output_dir'', ''out''] initial_state))
        (path_join ''out'' ''run_summary.txt'') \<noteq> None
   \<and> launched (snd (main example_host [''--input_dir'', ''nowhere'', ''--output_dir'', ''out''] initial_state))
       = launched initial_state"
    by blast
  from main_exit_codes [OF pa i o, of example_host initial_state
         "[''b.json'', ''a.json'', ''notes.txt'', ''bad.json'', ''c.json'']" 2] ex ld fj dg mk mw
  have c3: "exit_code (fst (main example_host [''--input_dir'', ''in'', ''--output_dir'', ''out''] initial_state)) = 0"
    by blast
  from pa [unfolded args_def] c1 nowhere c2 od c3 show ?thesis by blast
qed

text \<open>
  Claim C6, as stated, has a missing input directory write no report.  \<open>main\<close> does not
  check the input directory: \<open>run_batch_predictions\<close> returns empty buckets and the report
  generator is called.  With an existing output directory the report file is created and
  holds the lines written before the rate; the status is 1 from the uncaught exception.
\<close>

theorem missing_input_dir_counterexample:
  "exit_code (fst (main example_host [''--input_dir'', ''nowhere'', ''--output_dir'', ''out''] initial_state)) = 1
   \<and> files (snd (main example_host [''--input_dir'', ''nowhere'', ''--output_dir'', ''out''] initial_state))
        ''out/run_summary.txt''
       = Some [HeavyRule, TitleLine, HeavyRule, RunTime, OutputDir ''out'', LightRule,
               StatsTitle, LightRule, TotalTasks 0, SuccessCount 0, FailedCount 0, ErrorCount 0]"
  by code_simp

text \<open>An existing input directory without a valid descriptor ends in the same exception,
  so the exit status is 1 there too.\<close>

lemma no_valid_job_exit_code:
  "exit_code (fst (main example_host [''--input_dir'', ''out'', ''--output_dir'', ''out''] initial_state)) = 1"
  by code_simp

end
